theory Spec2Isabelle
  imports Complex_Main "HOL-Library.AList"
begin

section \<open>JavaScript values and strings\<close>

text \<open>
  A JavaScript string is modelled as a \<^typ>\<open>string\<close> holding its UTF-8 bytes. Substring
  search and replacement on well-formed UTF-8 agree with the same operations on code points.
  \<open>toLowerCase\<close> maps the ASCII letters only. Malayalam has no case, and every word the
  program looks for is lower-case ASCII; a text with other cased letters (such as U+212A,
  which JavaScript lowers to \<open>k\<close>) is outside what this function models.
  Numbers that hold a confidence are exact reals: every comparison the program makes is
  between two-digit decimal literals, on which exact and IEEE-754 comparison agree.
\<close>

datatype jsval = Undefined | Null | Str string

text \<open>Truthiness of a string-or-missing value, and the operator \<open>a || b\<close>.\<close>

fun truthy :: "jsval \<Rightarrow> bool" where
  "truthy (Str s) = (s \<noteq> [])"
| "truthy _ = False"

definition js_or :: "jsval \<Rightarrow> jsval \<Rightarrow> jsval" where
  "js_or a b = (if truthy a then a else b)"

text \<open>What a template literal \<open>`${v}`\<close> and a property key \<open>obj[v]\<close> make of a value.\<close>

fun toString :: "jsval \<Rightarrow> string" where
  "toString Undefined = ''undefined''"
| "toString Null = ''null''"
| "toString (Str s) = s"

fun startsWith :: "string \<Rightarrow> string \<Rightarrow> bool" where
  "startsWith s [] = True"
| "startsWith [] (p # ps) = False"
| "startsWith (c # cs) (p # ps) = (c = p \<and> startsWith cs ps)"

text \<open>\<open>text.includes(word)\<close>: substring containment.\<close>

fun str_includes :: "string \<Rightarrow> string \<Rightarrow> bool" where
  "str_includes [] p = (p = [])"
| "str_includes (c # cs) p = (startsWith (c # cs) p \<or> str_includes cs p)"

text \<open>\<open>text.replace(pattern, replacement)\<close> with a string pattern: the first occurrence only.\<close>

fun replace :: "string \<Rightarrow> string \<Rightarrow> string \<Rightarrow> string" where
  "replace [] p r = (if p = [] then r else [])"
| "replace (c # cs) p r =
     (if startsWith (c # cs) p then r @ drop (length p) (c # cs) else c # replace cs p r)"

definition lowerChar :: "char \<Rightarrow> char" where
  "lowerChar c =
     (if (65::nat) \<le> of_char c \<and> of_char c \<le> (90::nat) then char_of (of_char c + (32::nat)) else c)"

definition toLowerCase :: "string \<Rightarrow> string" where
  "toLowerCase s = map lowerChar s"

text \<open>\<open>parts.join(', ')\<close>.\<close>

fun join :: "string list \<Rightarrow> string" where
  "join [] = []"
| "join [x] = x"
| "join (x # y # ys) = x @ '', '' @ join (y # ys)"

text \<open>
  Property lookup \<open>obj[key]\<close> on an object literal. Besides its own keys the object answers
  the member names of \<open>Object.prototype\<close> with a function (or, for \<open>__proto__\<close>, an
  object): a truthy value that has none of the fields of an entry.
\<close>

datatype 'a lookup = Missing | Own 'a | Inherited

definition objectPrototypeKeys :: "string list" where
  "objectPrototypeKeys =
     [''constructor'', ''hasOwnProperty'', ''isPrototypeOf'', ''propertyIsEnumerable'',
      ''toLocaleString'', ''toString'', ''valueOf'', ''__proto__'', ''__defineGetter__'',
      ''__defineSetter__'', ''__lookupGetter__'', ''__lookupSetter__'']"

definition getProperty :: "(string \<times> 'a) list \<Rightarrow> string \<Rightarrow> 'a lookup" where
  "getProperty obj key =
     (case map_of obj key of
        Some v \<Rightarrow> Own v
      | None \<Rightarrow> if key \<in> set objectPrototypeKeys then Inherited else Missing)"

text \<open>An exception thrown by the runtime and caught by the nearest \<open>try\<close>.\<close>

datatype js_exn = TypeError

section \<open>Knowledge base\<close>

record cropInfo =
  commonDiseases :: "string list"
  pests :: "string list"
  seasonPlant :: string
  seasonHarvest :: string
  pesticides :: "(string \<times> string) list"

definition cropDatabase :: "(string \<times> cropInfo) list" where
  "cropDatabase =
     [(''banana'',
       \<lparr>commonDiseases = [''leaf spot'', ''panama disease'', ''black sigatoka''],
        pests = [''aphids'', ''nematodes'', ''thrips''],
        seasonPlant = ''June-July'', seasonHarvest = ''April-May'',
        pesticides = [(''leaf spot'', ''Copper oxychloride 0.3% or Mancozeb 0.2%''),
                      (''black sigatoka'', ''Propiconazole 0.1%'')]\<rparr>),
      (''rice'',
       \<lparr>commonDiseases = [''blast'', ''brown spot'', ''sheath blight''],
        pests = [''stem borer'', ''brown planthopper'', ''leaf folder''],
        seasonPlant = ''May-June, Nov-Dec'', seasonHarvest = ''Sep-Oct, Mar-Apr'',
        pesticides = [(''blast'', ''Tricyclazole 0.06% or Carbendazim 0.1%''),
                      (''brown spot'', ''Mancozeb 0.2%'')]\<rparr>),
      (''tomato'',
       \<lparr>commonDiseases = [''late blight'', ''early blight'', ''bacterial wilt''],
        pests = [''whitefly'', ''fruit borer'', ''aphids''],
        seasonPlant = ''Oct-Nov, Jan-Feb'', seasonHarvest = ''Dec-Jan, Apr-May'',
        pesticides = [(''late blight'', ''Metalaxyl + Mancozeb 0.2%''),
                      (''early blight'', ''Chlorothalonil 0.2%'')]\<rparr>)]"

record scheme =
  schemeName :: string
  eligibility :: string
  benefit :: string

definition schemes :: "(string \<times> scheme list) list" where
  "schemes =
     [(''kerala'',
       [\<lparr>schemeName = ''Krishi Bhavan Support'', eligibility = ''All farmers'',
         benefit = ''Free consultation''\<rparr>,
        \<lparr>schemeName = ''Organic Farming Subsidy'', eligibility = ''Small farmers'',
         benefit = ''50% subsidy on organic inputs''\<rparr>,
        \<lparr>schemeName = ''Crop Insurance'', eligibility = ''All farmers'',
         benefit = ''Weather risk coverage''\<rparr>])]"

section \<open>Natural language understanding\<close>

record entities =
  e_crop :: "string option"
  e_disease :: "string option"
  e_pest :: "string option"
  e_location :: "string option"
  e_season :: "string option"

definition cropWords :: "string list" where
  "cropWords = [''banana'', ''rice'', ''tomato'', ''coconut'', ''pepper'', ''cardamom'']"

definition diseaseWords :: "string list" where
  "diseaseWords = [''spot'', ''blight'', ''wilt'', ''rot'', ''disease'', ''infection'']"

definition pestWords :: "string list" where
  "pestWords = [''aphid'', ''borer'', ''thrips'', ''nematode'', ''pest'', ''insect'']"

text \<open>
  The \<open>forEach\<close> loops of \<open>extractEntities\<close>: every vocabulary word found in the text
  overwrites the slot, so the last one found stays.
\<close>

definition lastMatch :: "string list \<Rightarrow> string \<Rightarrow> string option" where
  "lastMatch ws text = foldl (\<lambda>slot w. if str_includes text w then Some w else slot) None ws"

definition extractEntities :: "string \<Rightarrow> entities" where
  "extractEntities text =
     \<lparr>e_crop = lastMatch cropWords text,
      e_disease = lastMatch diseaseWords text,
      e_pest = lastMatch pestWords text,
      e_location = None,
      e_season = None\<rparr>"

definition intentPatterns :: "(string \<times> string list) list" where
  "intentPatterns =
     [(''disease_diagnosis'', [''disease'', ''problem'', ''infected'', ''spots'', ''yellowing'']),
      (''pest_control'', [''pest'', ''insect'', ''eating'', ''holes'', ''damage'']),
      (''fertilizer_advice'', [''fertilizer'', ''nutrient'', ''growth'', ''yield'']),
      (''weather_query'', [''weather'', ''rain'', ''temperature'', ''climate'']),
      (''scheme_info'', [''scheme'', ''subsidy'', ''loan'', ''government'', ''support''])]"

fun firstIntent :: "(string \<times> string list) list \<Rightarrow> string \<Rightarrow> string" where
  "firstIntent [] text = ''general_query''"
| "firstIntent ((intent, patterns) # rest) text =
     (if list_ex (str_includes text) patterns then intent else firstIntent rest text)"

definition classifyIntent :: "string \<Rightarrow> string" where
  "classifyIntent text = firstIntent intentPatterns text"

definition phraseBananaLeafSpot :: string where
  "phraseBananaLeafSpot =
     [CHR 0xE0, CHR 0xB4, CHR 0xB5, CHR 0xE0, CHR 0xB4, CHR 0xBE, CHR 0xE0, CHR 0xB4,
     CHR 0xB4, CHR 0xE0, CHR 0xB4, CHR 0xAF, CHR 0xE0, CHR 0xB4, CHR 0xBF, CHR 0xE0,
     CHR 0xB4, CHR 0xB2, CHR 0xE0, CHR 0xB5, CHR 0x8D] @ '' '' @ [CHR 0xE0, CHR 0xB4,
     CHR 0xAA, CHR 0xE0, CHR 0xB5, CHR 0x81, CHR 0xE0, CHR 0xB4, CHR 0xB3, CHR 0xE0,
     CHR 0xB5, CHR 0x8D, CHR 0xE0, CHR 0xB4, CHR 0xB3, CHR 0xE0, CHR 0xB4, CHR 0xBF]"

definition phraseDisease :: string where
  "phraseDisease =
     [CHR 0xE0, CHR 0xB4, CHR 0xB0, CHR 0xE0, CHR 0xB5, CHR 0x8B, CHR 0xE0, CHR 0xB4,
     CHR 0x97, CHR 0xE0, CHR 0xB4, CHR 0x82]"

definition phrasePest :: string where
  "phrasePest =
     [CHR 0xE0, CHR 0xB4, CHR 0x95, CHR 0xE0, CHR 0xB5, CHR 0x80, CHR 0xE0, CHR 0xB4,
     CHR 0x9F, CHR 0xE0, CHR 0xB4, CHR 0x82]"

definition phraseMedicine :: string where
  "phraseMedicine =
     [CHR 0xE0, CHR 0xB4, CHR 0xAE, CHR 0xE0, CHR 0xB4, CHR 0xB0, CHR 0xE0, CHR 0xB5,
     CHR 0x81, CHR 0xE0, CHR 0xB4, CHR 0xA8, CHR 0xE0, CHR 0xB5, CHR 0x8D, CHR 0xE0,
     CHR 0xB4, CHR 0xA8, CHR 0xE0, CHR 0xB5, CHR 0x8D]"

definition phraseWhatToDo :: string where
  "phraseWhatToDo =
     [CHR 0xE0, CHR 0xB4, CHR 0x8E, CHR 0xE0, CHR 0xB4, CHR 0xA8, CHR 0xE0, CHR 0xB5,
     CHR 0x8D, CHR 0xE0, CHR 0xB4, CHR 0xA4, CHR 0xE0, CHR 0xB5, CHR 0x8D] @ '' '' @
     [CHR 0xE0, CHR 0xB4, CHR 0x9A, CHR 0xE0, CHR 0xB5, CHR 0x86, CHR 0xE0, CHR 0xB4,
     CHR 0xAF, CHR 0xE0, CHR 0xB5, CHR 0x8D, CHR 0xE0, CHR 0xB4, CHR 0xAF, CHR 0xE0,
     CHR 0xB4, CHR 0xA3, CHR 0xE0, CHR 0xB4, CHR 0x82]"

text \<open>
  The phrase table of \<open>translateMalayalam\<close>, in the order of the object literal; each
  phrase is replaced once, at its first occurrence.
\<close>

definition commonPhrases :: "(string \<times> string) list" where
  "commonPhrases =
     [(phraseBananaLeafSpot, ''banana leaf spot''),
      (phraseDisease, ''disease''),
      (phrasePest, ''pest''),
      (phraseMedicine, ''medicine''),
      (phraseWhatToDo, ''what to do'')]"

definition translateMalayalam :: "string \<Rightarrow> string" where
  "translateMalayalam text = foldl (\<lambda>t (malayalam, english). replace t malayalam english) text commonPhrases"

record nlpResult =
  originalText :: string
  translatedText :: "string option"
  n_entities :: entities
  intent :: string
  n_confidence :: real

text \<open>
  \<open>processNaturalLanguage\<close>. The entities are taken first, from the lower-cased text as it
  came in; the translation follows, and the intent is classified on the translated text.
  The \<open>catch\<close> branch answers an object with only an \<open>error\<close> field (\<open>Inl\<close>); no string
  argument reaches it.
\<close>

definition processNaturalLanguage :: "string \<Rightarrow> string \<Rightarrow> string + nlpResult" where
  "processNaturalLanguage text language =
     (let entities = extractEntities (toLowerCase text);
          text' = (if language = ''ml'' then translateMalayalam text else text);
          intent = classifyIntent text'
      in Inr \<lparr>originalText = text',
              translatedText = (if language = ''ml'' then Some text' else None),
              n_entities = entities,
              intent = intent,
              n_confidence = 0.85\<rparr>)"

section \<open>Season\<close>

text \<open>\<open>getCurrentSeason\<close>, with the calendar month (1 to 12) read from the clock as argument.\<close>

definition getCurrentSeason :: "nat \<Rightarrow> string" where
  "getCurrentSeason month =
     (if month \<ge> 6 \<and> month \<le> 9 then ''monsoon''
      else if month \<ge> 10 \<and> month \<le> 2 then ''post-monsoon''
      else ''pre-monsoon'')"

definition voiceText :: string where
  "voiceText =
     [CHR 0xE0, CHR 0xB4, CHR 0xB5, CHR 0xE0, CHR 0xB4, CHR 0xBE, CHR 0xE0, CHR 0xB4,
     CHR 0xB4, CHR 0xE0, CHR 0xB4, CHR 0xAF, CHR 0xE0, CHR 0xB4, CHR 0xBF, CHR 0xE0,
     CHR 0xB5, CHR 0xBD] @ '' '' @ [CHR 0xE0, CHR 0xB4, CHR 0xAA, CHR 0xE0, CHR 0xB5,
     CHR 0x81, CHR 0xE0, CHR 0xB4, CHR 0xB3, CHR 0xE0, CHR 0xB5, CHR 0x8D, CHR 0xE0,
     CHR 0xB4, CHR 0xB3, CHR 0xE0, CHR 0xB4, CHR 0xBF] @ '' '' @ [CHR 0xE0, CHR 0xB4,
     CHR 0xB0, CHR 0xE0, CHR 0xB5, CHR 0x8B, CHR 0xE0, CHR 0xB4, CHR 0x97, CHR 0xE0,
     CHR 0xB4, CHR 0x82] @ '' '' @ [CHR 0xE0, CHR 0xB4, CHR 0xB5, CHR 0xE0, CHR 0xB4,
     CHR 0xA8, CHR 0xE0, CHR 0xB5, CHR 0x8D, CHR 0xE0, CHR 0xB4, CHR 0xA8, CHR 0xE0,
     CHR 0xB4, CHR 0xBF, CHR 0xE0, CHR 0xB4, CHR 0x9F, CHR 0xE0, CHR 0xB5, CHR 0x8D,
     CHR 0xE0, CHR 0xB4, CHR 0x9F, CHR 0xE0, CHR 0xB5, CHR 0x81, CHR 0xE0, CHR 0xB4,
     CHR 0xA3, CHR 0xE0, CHR 0xB5, CHR 0x8D, CHR 0xE0, CHR 0xB4, CHR 0x9F, CHR 0xE0,
     CHR 0xB5, CHR 0x8D] @ '', '' @ [CHR 0xE0, CHR 0xB4, CHR 0x8E, CHR 0xE0, CHR 0xB4,
     CHR 0xA8, CHR 0xE0, CHR 0xB5, CHR 0x8D, CHR 0xE0, CHR 0xB4, CHR 0xA4, CHR 0xE0,
     CHR 0xB5, CHR 0x8D] @ '' '' @ [CHR 0xE0, CHR 0xB4, CHR 0xAE, CHR 0xE0, CHR 0xB4,
     CHR 0xB0, CHR 0xE0, CHR 0xB5, CHR 0x81, CHR 0xE0, CHR 0xB4, CHR 0xA8, CHR 0xE0,
     CHR 0xB5, CHR 0x8D, CHR 0xE0, CHR 0xB4, CHR 0xA8, CHR 0xE0, CHR 0xB5, CHR 0x8D] @ '' ''
     @ [CHR 0xE0, CHR 0xB4, CHR 0x89, CHR 0xE0, CHR 0xB4, CHR 0xAA, CHR 0xE0, CHR 0xB4,
     CHR 0xAF, CHR 0xE0, CHR 0xB5, CHR 0x8B, CHR 0xE0, CHR 0xB4, CHR 0x97, CHR 0xE0,
     CHR 0xB4, CHR 0xBF, CHR 0xE0, CHR 0xB4, CHR 0x95, CHR 0xE0, CHR 0xB5, CHR 0x8D,
     CHR 0xE0, CHR 0xB4, CHR 0x95, CHR 0xE0, CHR 0xB4, CHR 0xA3, CHR 0xE0, CHR 0xB4,
     CHR 0x82] @ ''?''"

section \<open>Image analysis and voice\<close>

record imageAnalysis =
  disease :: string
  i_confidence :: real
  symptoms :: "string list"
  severity :: string

text \<open>
  \<open>path.basename\<close> of an upload path (POSIX): trailing separators are dropped, and the
  name is what follows the last separator that remains.
\<close>

definition basename :: "string \<Rightarrow> string" where
  "basename p =
     rev (takeWhile (\<lambda>c. c \<noteq> CHR ''/'') (dropWhile (\<lambda>c. c = CHR ''/'') (rev p)))"

definition diseasePatterns :: "(string \<times> string \<times> real) list" where
  "diseasePatterns =
     [(''spot'', ''Leaf Spot'', 0.82),
      (''blight'', ''Late Blight'', 0.89),
      (''yellow'', ''Nutrient Deficiency'', 0.75),
      (''brown'', ''Fungal Infection'', 0.78)]"

fun firstPattern :: "(string \<times> string \<times> real) list \<Rightarrow> string \<Rightarrow> imageAnalysis" where
  "firstPattern [] fileName =
     \<lparr>disease = ''Unknown condition'', i_confidence = 0.45,
      symptoms = [''Unclear symptoms from image''], severity = ''low''\<rparr>"
| "firstPattern ((pattern, d, c) # rest) fileName =
     (if str_includes fileName pattern
      then \<lparr>disease = d, i_confidence = c,
            symptoms = [''Visible '' @ pattern @ '' patterns'', ''Affected leaf areas''],
            severity = (if c > 0.8 then ''high'' else ''medium'')\<rparr>
      else firstPattern rest fileName)"

text \<open>
  \<open>analyzeImage\<close>. Nothing inside its \<open>try\<close> throws on a string path, so the \<open>catch\<close>
  branch is not a result of the model.
\<close>

definition analyzeImage :: "string \<Rightarrow> string \<Rightarrow> imageAnalysis" where
  "analyzeImage imagePath cropType = firstPattern diseasePatterns (toLowerCase (basename imagePath))"

record voiceResult =
  v_text :: string
  v_language :: string
  v_confidence :: real

definition processVoice :: "string \<Rightarrow> voiceResult" where
  "processVoice audioPath = \<lparr>v_text = voiceText, v_language = ''ml'', v_confidence = 0.87\<rparr>"

section \<open>Stores\<close>

record weather =
  condition :: string
  temperature :: nat
  humidity :: nat
  rainfall :: string

record cropCalendar =
  plantingSeason :: string
  harvestSeason :: string
  nextActivity :: string

text \<open>
  The context handed to the advice branches. \<open>previousQueries\<close> holds references to
  records of the query log, kept here as the records' ids.
\<close>

record aiContext =
  c_location :: jsval
  c_crop :: jsval
  c_season :: string
  previousQueries :: "nat list"
  localWeather :: weather
  c_cropCalendar :: "cropCalendar option"

record adviceResult =
  mainAdvice :: string
  recommendations :: "string list"
  confidence :: real
  shouldEscalate :: bool
  r_context :: aiContext

text \<open>
  The value of \<open>generateAdvice\<close>: the advice, or the object \<open>{ error: ... }\<close> of its
  \<open>catch\<close> branch (\<open>Inl\<close>), which has no other property.
\<close>

type_synonym aiResponse = "string + adviceResult"

text \<open>
  The query object. The literal that the request handler builds has no \<open>language\<close>
  property; \<open>q_language\<close> is \<open>None\<close> for an object without it.
\<close>

record query =
  q_queryText :: string
  q_farmerId :: string
  q_crop :: string
  q_location :: string
  q_season :: string
  q_language :: "string option"

record feedbackEntry =
  f_queryId :: nat
  rating :: int
  comments :: string
  isHelpful :: bool
  f_timestamp :: nat

record queryRecord =
  qr_id :: nat
  qr_timestamp :: nat
  qr_query :: query
  qr_response :: aiResponse
  qr_feedback :: "feedbackEntry option"
  qr_farmerId :: string

record farmerProfile =
  fp_id :: string
  fp_location :: string
  crops :: "string list"
  queryHistory :: "nat list"
  joinDate :: nat

record escalation =
  esc_id :: nat
  esc_farmerId :: string
  originalQuery :: string
  esc_nlpResult :: "(string + nlpResult) option"
  esc_imageAnalysis :: "imageAnalysis option"
  esc_aiResponse :: aiResponse
  esc_location :: string
  esc_crop :: string
  priority :: string
  createdAt :: nat

text \<open>
  The in-memory stores. \<open>farmers\<close> is a \<open>Map\<close>: an association list in insertion order
  with one entry for each key.
\<close>

record state =
  farmers :: "(string \<times> farmerProfile) list"
  escalations :: "escalation list"
  queries :: "queryRecord list"
  feedback :: "feedbackEntry list"

definition initialState :: state where
  "initialState = \<lparr>farmers = [], escalations = [], queries = [], feedback = []\<rparr>"

text \<open>
  The clock: \<open>Date.now()\<close> in milliseconds and the calendar month, 1 to 12. All readings
  taken while one request is handled are the same instant; timestamps are kept as numbers.
\<close>

record clock =
  now :: nat
  month :: nat

section \<open>Advice generation\<close>

definition getLocalWeather :: "string \<Rightarrow> weather" where
  "getLocalWeather location =
     \<lparr>condition = ''partly cloudy'', temperature = 28, humidity = 75, rainfall = ''moderate''\<rparr>"

text \<open>
  \<open>getCropCalendar\<close>. For a crop name that is a member of \<open>Object.prototype\<close> the lookup
  is truthy and has no \<open>seasons\<close>, so reading \<open>seasons.plant\<close> throws.
\<close>

definition getCropCalendar :: "string \<Rightarrow> string \<Rightarrow> js_exn + cropCalendar option" where
  "getCropCalendar crop location =
     (case getProperty cropDatabase crop of
        Missing \<Rightarrow> Inr None
      | Inherited \<Rightarrow> Inl TypeError
      | Own info \<Rightarrow>
          Inr (Some \<lparr>plantingSeason = seasonPlant info,
                     harvestSeason = seasonHarvest info,
                     nextActivity = ''Apply fertilizer in 2 weeks''\<rparr>))"

definition urgencyPhrase :: string where
  "urgencyPhrase = ''This is a serious condition requiring immediate attention. ''"

text \<open>
  What a member inherited from \<open>Object.prototype\<close> prints as in a template literal: the
  prototype object itself for \<open>__proto__\<close>, the text of a native function for the others
  (\<open>constructor\<close> is the function \<open>Object\<close>).
\<close>

definition inheritedText :: "string \<Rightarrow> string" where
  "inheritedText key =
     (if key = ''__proto__'' then ''[object Object]''
      else ''function '' @ (if key = ''constructor'' then ''Object'' else key)
             @ ''() { [native code] }'')"

text \<open>
  A property of an object of strings, as the value it has on the left of \<open>||\<close> and in a
  template literal. An inherited member is truthy and prints as its text, so it stands
  here as that (non-empty) string.
\<close>

definition stringProperty :: "(string \<times> string) list \<Rightarrow> string \<Rightarrow> jsval" where
  "stringProperty obj key =
     (case getProperty obj key of
        Own v \<Rightarrow> Str v
      | Inherited \<Rightarrow> Str (inheritedText key)
      | Missing \<Rightarrow> Undefined)"

text \<open>\<open>obj[Object.keys(obj)[0]]\<close>: the value of the first key, undefined without one.\<close>

definition firstValue :: "(string \<times> string) list \<Rightarrow> jsval" where
  "firstValue obj = (case obj of [] \<Rightarrow> Undefined | (k, v) # _ \<Rightarrow> Str v)"

text \<open>
  \<open>generateDiseaseAdvice\<close>. A crop name that is a member of \<open>Object.prototype\<close> gives a
  value without \<open>pesticides\<close>, and reading the treatment from it throws.
\<close>

definition generateDiseaseAdvice :: "imageAnalysis \<Rightarrow> aiContext \<Rightarrow> js_exn + string" where
  "generateDiseaseAdvice imageAnalysis ctx =
     (case getProperty cropDatabase (toString (c_crop ctx)) of
        Missing \<Rightarrow>
          Inr (''Detected '' @ disease imageAnalysis @
               ''. General recommendation: Consult with local agricultural officer for crop-specific treatment.'')
      | Inherited \<Rightarrow> Inl TypeError
      | Own info \<Rightarrow>
          (let treatment = js_or (stringProperty (pesticides info) (toLowerCase (disease imageAnalysis)))
                                 (firstValue (pesticides info));
               advice0 = ''Detected '' @ disease imageAnalysis @ '' in your '' @ toString (c_crop ctx) @ ''. '';
               advice1 = (if severity imageAnalysis = ''high'' then advice0 @ urgencyPhrase else advice0);
               advice2 = advice1 @ ''Recommended treatment: '' @ toString treatment @ ''. ''
                           @ ''Apply during early morning or late evening. ''
                           @ ''Ensure proper coverage of affected areas.''
           in Inr (if c_season ctx \<noteq> []
                   then advice2 @ '' Since it''@ [CHR 0x27] @ ''s '' @ c_season ctx
                          @ '', also ensure proper drainage and avoid overhead irrigation.''
                   else advice2)))"

text \<open>
  \<open>generateIntentBasedAdvice\<close>. A region whose lower-cased name is a member of
  \<open>Object.prototype\<close> gives a value without \<open>map\<close>, and the call throws; so does
  \<open>pests.join\<close> on such a crop.
\<close>

definition generateIntentBasedAdvice :: "nlpResult \<Rightarrow> aiContext \<Rightarrow> js_exn + string" where
  "generateIntentBasedAdvice nlp ctx =
     (let crop = toString (c_crop ctx); location = toString (c_location ctx) in
      if intent nlp = ''disease_diagnosis'' then
        Inr (''For '' @ crop @ '' disease issues in '' @ location
             @ '', I recommend uploading a clear photo of the affected plant parts for accurate diagnosis.'')
      else if intent nlp = ''pest_control'' then
        (case getProperty cropDatabase crop of
           Own info \<Rightarrow>
             Inr (''Common pests in '' @ crop @ '': '' @ join (pests info)
                  @ ''. Use IPM approach - neem oil spray, yellow sticky traps, and biological control agents.'')
         | Inherited \<Rightarrow> Inl TypeError
         | Missing \<Rightarrow>
             Inr (''For pest control in '' @ crop
                  @ '', use integrated pest management. Upload photos for specific identification.''))
      else if intent nlp = ''fertilizer_advice'' then
        Inr (''For '' @ crop @ '' in '' @ (if c_season ctx \<noteq> [] then c_season ctx else ''current season'')
             @ '', use balanced NPK fertilizer. Soil testing recommended for precise nutrient management.'')
      else if intent nlp = ''scheme_info'' then
        (case (case c_location ctx of
                 Str l \<Rightarrow> getProperty schemes (toLowerCase l)
               | _ \<Rightarrow> Missing) of
           Own locationSchemes \<Rightarrow>
             Inr (''Available schemes: '' @ join (map schemeName locationSchemes)
                  @ ''. Contact your local Krishi Bhavan for applications.'')
         | Missing \<Rightarrow>
             Inr (''Available schemes: '' @ join []
                  @ ''. Contact your local Krishi Bhavan for applications.'')
         | Inherited \<Rightarrow> Inl TypeError)
      else
        Inr (''I understand you''@ [CHR 0x27] @ ''re asking about '' @ crop
             @ ''. Please provide more specific details or upload photos for better assistance.''))"

definition getContextualRecommendations :: "aiContext \<Rightarrow> string list" where
  "getContextualRecommendations ctx =
     (if condition (localWeather ctx) = ''rainy''
      then [[CHR 0xE2, CHR 0x9B, CHR 0x88]
            @ '' Heavy rains expected - ensure proper drainage to prevent fungal diseases'']
      else [])
     @ (if c_season ctx = ''monsoon''
        then [[CHR 0xF0, CHR 0x9F, CHR 0x8C, CHR 0xA7]
              @ '' Monsoon season - increase surveillance for disease outbreaks'']
        else [])
     @ (case c_cropCalendar ctx of
          Some cal \<Rightarrow>
            (if nextActivity cal \<noteq> []
             then [[CHR 0xF0, CHR 0x9F, CHR 0x93, CHR 0x85] @ '' Upcoming: '' @ nextActivity cal]
             else [])
        | None \<Rightarrow> [])"

text \<open>The argument that the request handler passes as \<open>context\<close>.\<close>

record adviceInput =
  nlp :: "(string + nlpResult) option"
  a_imageAnalysis :: "imageAnalysis option"
  a_crop :: string
  a_location :: string
  a_season :: string
  a_farmerId :: string

text \<open>\<open>nlp?.entities?.crop\<close>.\<close>

definition nlpCrop :: "(string + nlpResult) option \<Rightarrow> jsval" where
  "nlpCrop n =
     (case n of
        Some (Inr r) \<Rightarrow> (case e_crop (n_entities r) of Some c \<Rightarrow> Str c | None \<Rightarrow> Null)
      | _ \<Rightarrow> Undefined)"

text \<open>\<open>farmerHistory?.slice(-5)\<close>: the last five.\<close>

definition lastFive :: "'a list \<Rightarrow> 'a list" where
  "lastFive xs = drop (length xs - 5) xs"

text \<open>
  \<open>generateAdvice\<close>, reading the farmer store and the month. The context is built first
  (its last field may throw), then the advice of the first branch that applies; whatever
  is thrown inside is caught and answered with the error object.
\<close>

definition buildContext ::
  "(string \<times> farmerProfile) list \<Rightarrow> nat \<Rightarrow> adviceInput \<Rightarrow> queryRecord list \<Rightarrow> js_exn + aiContext" where
  "buildContext fs m inp farmerHistory =
     (case getCropCalendar (a_crop inp) (a_location inp) of
        Inl e \<Rightarrow> Inl e
      | Inr cal \<Rightarrow>
          Inr \<lparr>c_location = js_or (Str (a_location inp))
                                  (case map_of fs (a_farmerId inp) of
                                     Some p \<Rightarrow> Str (fp_location p)
                                   | None \<Rightarrow> Undefined),
               c_crop = js_or (Str (a_crop inp)) (nlpCrop (nlp inp)),
               c_season = (if a_season inp \<noteq> [] then a_season inp else getCurrentSeason m),
               previousQueries = map qr_id (lastFive farmerHistory),
               localWeather = getLocalWeather (a_location inp),
               c_cropCalendar = cal\<rparr>)"

definition adviceBranch :: "adviceInput \<Rightarrow> aiContext \<Rightarrow> js_exn + (string \<times> real)" where
  "adviceBranch inp ctx =
     (case (case a_imageAnalysis inp of
              Some img \<Rightarrow> if disease img \<noteq> ''Unknown condition'' then Some img else None
            | None \<Rightarrow> None) of
        Some img \<Rightarrow>
          (case generateDiseaseAdvice img ctx of
             Inl e \<Rightarrow> Inl e
           | Inr advice \<Rightarrow> Inr (advice, i_confidence img))
      | None \<Rightarrow>
          (case nlp inp of
             Some (Inr n) \<Rightarrow>
               (if intent n \<noteq> []
                then (case generateIntentBasedAdvice n ctx of
                        Inl e \<Rightarrow> Inl e
                      | Inr advice \<Rightarrow>
                          Inr (advice, if n_confidence n \<noteq> 0 then n_confidence n else 0.7))
                else Inr (''I need more information to help you better. Could you describe your problem or upload a photo?'', 0.3))
           | _ \<Rightarrow>
               Inr (''I need more information to help you better. Could you describe your problem or upload a photo?'', 0.3)))"

definition generateAdvice ::
  "(string \<times> farmerProfile) list \<Rightarrow> nat \<Rightarrow> query \<Rightarrow> adviceInput \<Rightarrow> queryRecord list \<Rightarrow> aiResponse" where
  "generateAdvice fs m q inp farmerHistory =
     (case buildContext fs m inp farmerHistory of
        Inl e \<Rightarrow> Inl ''Could not generate advice''
      | Inr ctx \<Rightarrow>
          (case adviceBranch inp ctx of
             Inl e \<Rightarrow> Inl ''Could not generate advice''
           | Inr (advice, conf) \<Rightarrow>
               Inr \<lparr>mainAdvice = advice,
                    recommendations = getContextualRecommendations ctx,
                    confidence = conf,
                    shouldEscalate = (conf < 0.6),
                    r_context = ctx\<rparr>))"

section \<open>Learning loop\<close>

text \<open>
  \<open>recordQuery\<close>: the record is appended to the log; the farmer's profile is created when
  the id is new; the record id is pushed on its history and the crop on its crops, when
  the crop is a non-empty string that is not there yet.
\<close>

definition newProfile :: "query \<Rightarrow> clock \<Rightarrow> farmerProfile" where
  "newProfile q clk =
     \<lparr>fp_id = q_farmerId q, fp_location = q_location q, crops = [], queryHistory = [],
      joinDate = now clk\<rparr>"

definition addCrop :: "string \<Rightarrow> string list \<Rightarrow> string list" where
  "addCrop c cs = (if c \<noteq> [] \<and> c \<notin> set cs then cs @ [c] else cs)"

definition recordQuery :: "query \<Rightarrow> aiResponse \<Rightarrow> clock \<Rightarrow> state \<Rightarrow> state" where
  "recordQuery q response clk st =
     (let queryRecord = \<lparr>qr_id = now clk, qr_timestamp = now clk, qr_query = q,
                          qr_response = response, qr_feedback = None,
                          qr_farmerId = q_farmerId q\<rparr>;
          farmer = (case map_of (farmers st) (q_farmerId q) of
                      Some p \<Rightarrow> p
                    | None \<Rightarrow> newProfile q clk);
          farmer' = farmer\<lparr>queryHistory := queryHistory farmer @ [qr_id queryRecord],
                            crops := addCrop (q_crop q) (crops farmer)\<rparr>
      in st\<lparr>queries := queries st @ [queryRecord],
            farmers := AList.update (q_farmerId q) farmer' (farmers st)\<rparr>)"

section \<open>Query endpoint\<close>

text \<open>
  The request: the fields of the body, each absent (\<open>None\<close>) or a string, and the paths
  of the uploaded files.
\<close>

record request =
  b_queryText :: "string option"
  b_location :: "string option"
  b_crop :: "string option"
  b_farmerId :: "string option"
  b_language :: "string option"
  b_season :: "string option"
  image :: "string option"
  audio :: "string option"

definition orDefault :: "string option \<Rightarrow> string \<Rightarrow> string" where
  "orDefault field d = (case field of Some s \<Rightarrow> s | None \<Rightarrow> d)"

record response =
  answer :: "string option"
  r_recommendations :: "string list"
  r_confidence :: "real option"
  status :: string
  detectedCrop :: string
  detectedDisease :: "string option"
  r_season :: string
  r_language :: string
  nlpProcessed :: bool
  imageProcessed :: bool
  voiceProcessed :: bool

text \<open>What the handler's own \<open>catch\<close> sends: status 500 with this error text.\<close>

datatype httpError = InternalServerError string

text \<open>
  The voice step. \<open>language\<close> is one of the names bound by the \<open>const\<close> destructuring of
  the body, so the assignment to it, right after the transcript replaces the query text,
  throws a TypeError.
\<close>

definition voiceStep :: "string option \<Rightarrow> string \<Rightarrow> js_exn + (string \<times> voiceResult option)" where
  "voiceStep audioFile queryText =
     (case audioFile of
        None \<Rightarrow> Inr (queryText, None)
      | Some p \<Rightarrow>
          (let voiceResult = processVoice p in
           if v_text voiceResult \<noteq> [] then Inl TypeError
           else Inr (queryText, Some voiceResult)))"

text \<open>The escalation test, and the priority of the record it appends.\<close>

definition needsEscalation :: "aiResponse \<Rightarrow> bool" where
  "needsEscalation aiResponse =
     (case aiResponse of
        Inr r \<Rightarrow> shouldEscalate r \<or> confidence r < 0.6
      | Inl _ \<Rightarrow> False)"

definition escalationPriority :: "aiResponse \<Rightarrow> string" where
  "escalationPriority aiResponse =
     (case aiResponse of
        Inr r \<Rightarrow> if confidence r < 0.4 then ''high'' else ''medium''
      | Inl _ \<Rightarrow> ''medium'')"

definition escalate ::
  "string \<Rightarrow> string \<Rightarrow> (string + nlpResult) option \<Rightarrow> imageAnalysis option \<Rightarrow> aiResponse
     \<Rightarrow> string \<Rightarrow> string \<Rightarrow> clock \<Rightarrow> state \<Rightarrow> string \<times> state" where
  "escalate farmerId processedQuery nlpResult imageAnalysis aiResponse location crop clk st =
     (if needsEscalation aiResponse
      then (''escalated'',
            st\<lparr>escalations := escalations st @
                 [\<lparr>esc_id = now clk, esc_farmerId = farmerId, originalQuery = processedQuery,
                   esc_nlpResult = nlpResult, esc_imageAnalysis = imageAnalysis,
                   esc_aiResponse = aiResponse, esc_location = location, esc_crop = crop,
                   priority = escalationPriority aiResponse, createdAt = now clk\<rparr>]\<rparr>)
      else (''answered'', st))"

definition processQuery :: "state \<Rightarrow> request \<Rightarrow> clock \<Rightarrow> httpError + (response \<times> state)" where
  "processQuery st req clk =
     (let queryText = orDefault (b_queryText req) [];
          location = orDefault (b_location req) [];
          crop = orDefault (b_crop req) [];
          farmerId = orDefault (b_farmerId req) ''anonymous'';
          language = orDefault (b_language req) ''en'';
          season = orDefault (b_season req) []
      in case voiceStep (audio req) queryText of
           Inl e \<Rightarrow> Inl (InternalServerError ''Failed to process your query'')
         | Inr (processedQuery, voiceResult) \<Rightarrow>
             (let nlpResult = (if processedQuery \<noteq> []
                               then Some (processNaturalLanguage processedQuery language)
                               else None);
                  imageAnalysis = map_option (\<lambda>p. analyzeImage p crop) (image req);
                  farmerHistory = filter (\<lambda>q. q_farmerId (qr_query q) = farmerId) (queries st);
                  q = \<lparr>q_queryText = processedQuery, q_farmerId = farmerId, q_crop = crop,
                       q_location = location, q_season = season, q_language = None\<rparr>;
                  aiResponse = generateAdvice (farmers st) (month clk) q
                                 \<lparr>nlp = nlpResult, a_imageAnalysis = imageAnalysis, a_crop = crop,
                                  a_location = location, a_season = season, a_farmerId = farmerId\<rparr>
                                 farmerHistory;
                  (status, st1) = escalate farmerId processedQuery nlpResult imageAnalysis
                                    aiResponse location crop clk st;
                  st2 = recordQuery q aiResponse clk st1
              in Inr (\<lparr>answer = (case aiResponse of Inr r \<Rightarrow> Some (mainAdvice r) | Inl _ \<Rightarrow> None),
                        r_recommendations = (case aiResponse of Inr r \<Rightarrow> recommendations r | Inl _ \<Rightarrow> []),
                        r_confidence = (case aiResponse of Inr r \<Rightarrow> Some (confidence r) | Inl _ \<Rightarrow> None),
                        status = status,
                        detectedCrop = toString (js_or (nlpCrop nlpResult) (Str crop)),
                        detectedDisease = map_option disease imageAnalysis,
                        r_season = (if season \<noteq> [] then season else getCurrentSeason (month clk)),
                        r_language = language,
                        nlpProcessed = (nlpResult \<noteq> None),
                        imageProcessed = (imageAnalysis \<noteq> None),
                        voiceProcessed = (voiceResult \<noteq> None)\<rparr>,
                      st2)))"

section \<open>Feedback endpoint\<close>

record feedbackRequest =
  fb_queryId :: nat
  fb_rating :: int
  fb_comments :: string
  fb_isHelpful :: bool

text \<open>\<open>queries.findIndex(...)\<close>; \<open>None\<close> stands for \<open>-1\<close>.\<close>

fun findIndex :: "('a \<Rightarrow> bool) \<Rightarrow> 'a list \<Rightarrow> nat option" where
  "findIndex P [] = None"
| "findIndex P (x # xs) = (if P x then Some 0 else map_option Suc (findIndex P xs))"

definition submitFeedback :: "state \<Rightarrow> feedbackRequest \<Rightarrow> clock \<Rightarrow> string \<times> state" where
  "submitFeedback st req clk =
     (let feedbackEntry = \<lparr>f_queryId = fb_queryId req, rating = fb_rating req,
                            comments = fb_comments req, isHelpful = fb_isHelpful req,
                            f_timestamp = now clk\<rparr>;
          st1 = st\<lparr>feedback := feedback st @ [feedbackEntry]\<rparr>;
          st2 = (case findIndex (\<lambda>q. qr_id q = fb_queryId req) (queries st1) of
                   Some queryIndex \<Rightarrow>
                     st1\<lparr>queries := (queries st1)
                            [queryIndex := (queries st1 ! queryIndex)\<lparr>qr_feedback := Some feedbackEntry\<rparr>]\<rparr>
                 | None \<Rightarrow> st1)
      in (''Feedback recorded successfully'', st2))"

section \<open>Analytics endpoint\<close>

text \<open>
  The value of a JavaScript division: a number, \<open>NaN\<close> for \<open>0 / 0\<close>, an infinity for any
  other division by zero. Finite values are exact reals.
\<close>

datatype jsnum = Num real | NaN | PosInfinity | NegInfinity

definition js_divide :: "real \<Rightarrow> real \<Rightarrow> jsnum" where
  "js_divide a b =
     (if b \<noteq> 0 then Num (a / b)
      else if a = 0 then NaN
      else if a > 0 then PosInfinity
      else NegInfinity)"

text \<open>\<open>x * 100\<close>.\<close>

fun timesHundred :: "jsnum \<Rightarrow> jsnum" where
  "timesHundred (Num x) = Num (x * 100)"
| "timesHundred v = v"

text \<open>\<open>q.response?.confidence || 0\<close>.\<close>

definition confidenceOrZero :: "queryRecord \<Rightarrow> real" where
  "confidenceOrZero q = (case qr_response q of Inr r \<Rightarrow> confidence r | Inl _ \<Rightarrow> 0)"

definition bumpLanguage :: "(string \<times> nat) list \<Rightarrow> queryRecord \<Rightarrow> (string \<times> nat) list" where
  "bumpLanguage langCount q =
     (let lang = (case q_language (qr_query q) of
                    Some l \<Rightarrow> if l \<noteq> [] then l else ''en''
                  | None \<Rightarrow> ''en'')
      in AList.update lang ((case map_of langCount lang of Some n \<Rightarrow> n | None \<Rightarrow> 0) + 1) langCount)"

definition getLanguageDistribution :: "queryRecord list \<Rightarrow> (string \<times> nat) list" where
  "getLanguageDistribution qs =
     foldl bumpLanguage [(''en'', 0), (''ml'', 0), (''hi'', 0), (''other'', 0)] qs"

text \<open>
  The analytics object, without \<open>topCrops\<close> and \<open>topDiseases\<close>. The two rates are the
  values handed to \<open>toFixed\<close>, which prints \<open>NaN\<close> as the string \<open>"NaN"\<close>.
\<close>

record analytics =
  totalQueries :: nat
  totalFarmers :: nat
  escalationRate :: jsnum
  avgConfidence :: jsnum
  languageDistribution :: "(string \<times> nat) list"

definition getAnalytics :: "state \<Rightarrow> analytics" where
  "getAnalytics st =
     \<lparr>totalQueries = length (queries st),
      totalFarmers = length (farmers st),
      escalationRate = timesHundred (js_divide (real (length (escalations st))) (real (length (queries st)))),
      avgConfidence = js_divide (foldl (\<lambda>sum q. sum + confidenceOrZero q) 0 (queries st))
                                (real (length (queries st))),
      languageDistribution = getLanguageDistribution (queries st)\<rparr>"

section \<open>Observations and sample inputs\<close>

text \<open>The crops of a farmer's profile; no crop for an id without profile.\<close>

definition farmerCrops :: "state \<Rightarrow> string \<Rightarrow> string list" where
  "farmerCrops st fid = (case map_of (farmers st) fid of Some p \<Rightarrow> crops p | None \<Rightarrow> [])"

text \<open>A sequence of \<open>recordQuery\<close> calls, each with its query, response and clock reading.\<close>

fun recordQueries :: "state \<Rightarrow> (query \<times> aiResponse \<times> clock) list \<Rightarrow> state" where
  "recordQueries st [] = st"
| "recordQueries st ((q, a, clk) # rest) = recordQueries (recordQuery q a clk st) rest"

definition sampleClock :: clock where
  "sampleClock = \<lparr>now = 1000, month = 11\<rparr>"

text \<open>A request with an empty body and no file.\<close>

definition emptyRequest :: request where
  "emptyRequest =
     \<lparr>b_queryText = None, b_location = None, b_crop = None, b_farmerId = None,
      b_language = None, b_season = None, image = None, audio = None\<rparr>"

definition sampleQuery :: "string \<Rightarrow> query" where
  "sampleQuery crop =
     \<lparr>q_queryText = [], q_farmerId = ''f1'', q_crop = crop, q_location = [], q_season = [],
      q_language = None\<rparr>"

text \<open>An upload whose file name holds the pattern \<open>spot\<close>, sent with a crop name.\<close>

definition leafSpotUpload :: "string \<Rightarrow> adviceInput" where
  "leafSpotUpload crop =
     \<lparr>nlp = None, a_imageAnalysis = Some (analyzeImage ''uploads/leaf_spot.jpg'' crop),
      a_crop = crop, a_location = [], a_season = [], a_farmerId = ''f1''\<rparr>"

text \<open>An advice result with a given confidence and the flag that goes with it.\<close>

definition sampleAdvice :: "real \<Rightarrow> adviceResult" where
  "sampleAdvice c =
     \<lparr>mainAdvice = ''Detected Leaf Spot in your banana. '', recommendations = [],
      confidence = c, shouldEscalate = (c < 0.6),
      r_context = \<lparr>c_location = Undefined, c_crop = Str ''banana'', c_season = ''pre-monsoon'',
                    previousQueries = [], localWeather = getLocalWeather [],
                    c_cropCalendar = None\<rparr>\<rparr>"

definition sampleFeedback :: feedbackRequest where
  "sampleFeedback = \<lparr>fb_queryId = 7, fb_rating = 5, fb_comments = ''good'', fb_isHelpful = True\<rparr>"

section \<open>Evaluation lemmas\<close>

lemma voiceText_nonempty: "voiceText \<noteq> []"
  by (simp add: voiceText_def)

lemma translate_phraseDisease: "translateMalayalam phraseDisease = ''disease''"
  by (simp add: translateMalayalam_def commonPhrases_def phraseDisease_def
      phraseBananaLeafSpot_def phrasePest_def phraseMedicine_def phraseWhatToDo_def)

lemma lower_phraseDisease: "toLowerCase phraseDisease = phraseDisease"
  by (simp add: toLowerCase_def lowerChar_def phraseDisease_def)

lemma lower_disease: "toLowerCase ''disease'' = ''disease''"
  by (simp add: toLowerCase_def lowerChar_def)

lemma entities_phraseDisease:
  "extractEntities phraseDisease =
     \<lparr>e_crop = None, e_disease = None, e_pest = None, e_location = None, e_season = None\<rparr>"
  by (simp add: extractEntities_def lastMatch_def cropWords_def diseaseWords_def pestWords_def
      phraseDisease_def)

lemma entities_disease:
  "extractEntities ''disease'' =
     \<lparr>e_crop = None, e_disease = Some ''disease'', e_pest = None, e_location = None,
      e_season = None\<rparr>"
  by (simp add: extractEntities_def lastMatch_def cropWords_def diseaseWords_def pestWords_def)

lemma intent_disease: "classifyIntent ''disease'' = ''disease_diagnosis''"
  by (simp add: classifyIntent_def intentPatterns_def)

section \<open>Season default\<close>

text \<open>
  C3. The default season is to be post-monsoon in the months 10, 11, 12, 1 and 2. The
  second test of \<open>getCurrentSeason\<close> asks for a month that is at least 10 and at most 2,
  which no month is: in November the function answers pre-monsoon.
\<close>

theorem getCurrentSeason_november: "getCurrentSeason 11 = ''pre-monsoon''"
  by (simp add: getCurrentSeason_def)

section \<open>Translation and entities\<close>

text \<open>
  C5. For Malayalam input the entities are to be computed from the translated text. On
  the Malayalam word for disease, \<open>processNaturalLanguage\<close> classifies the intent on the
  translation and records it as \<open>translatedText\<close>, but its entities are those of the
  untranslated text (none), while the translated text holds the disease word.
\<close>

theorem processNaturalLanguage_entities_untranslated:
  "processNaturalLanguage phraseDisease ''ml'' =
     Inr \<lparr>originalText = ''disease'', translatedText = Some ''disease'',
          n_entities = \<lparr>e_crop = None, e_disease = None, e_pest = None, e_location = None,
                        e_season = None\<rparr>,
          intent = ''disease_diagnosis'', n_confidence = 0.85\<rparr>
   \<and> extractEntities (toLowerCase (translateMalayalam phraseDisease)) =
       \<lparr>e_crop = None, e_disease = Some ''disease'', e_pest = None, e_location = None,
        e_season = None\<rparr>"
  by (simp add: processNaturalLanguage_def Let_def translate_phraseDisease lower_phraseDisease
      lower_disease entities_phraseDisease entities_disease intent_disease)

section \<open>Analytics on an empty log\<close>

text \<open>
  C8. With no query recorded the escalation rate and the average confidence are to be
  defined values such as 0. \<open>getAnalytics\<close> divides by the length of the empty log: both
  are \<open>NaN\<close>.
\<close>

theorem getAnalytics_empty_NaN:
  "escalationRate (getAnalytics initialState) = NaN
   \<and> avgConfidence (getAnalytics initialState) = NaN"
  by (simp add: getAnalytics_def initialState_def js_divide_def)

section \<open>Escalation\<close>

lemma generateAdvice_flag:
  "generateAdvice fs m q inp h = Inr r \<Longrightarrow> shouldEscalate r = (confidence r < 0.6)"
  by (auto simp: generateAdvice_def split: sum.splits prod.splits)

lemma recordQuery_queries:
  "queries (recordQuery q a clk st) = queries st @
     [\<lparr>qr_id = now clk, qr_timestamp = now clk, qr_query = q, qr_response = a,
       qr_feedback = None, qr_farmerId = q_farmerId q\<rparr>]"
  by (simp add: recordQuery_def Let_def)

lemma recordQuery_escalations: "escalations (recordQuery q a clk st) = escalations st"
  by (simp add: recordQuery_def Let_def)

lemma escalate_status:
  "fst (escalate f pq n i a l c clk st) = (if needsEscalation a then ''escalated'' else ''answered'')"
  by (simp add: escalate_def)

lemma escalate_queries: "queries (snd (escalate f pq n i a l c clk st)) = queries st"
  by (simp add: escalate_def)

lemma escalate_escalations:
  "escalations (snd (escalate f pq n i a l c clk st)) =
     (if needsEscalation a
      then escalations st @
           [\<lparr>esc_id = now clk, esc_farmerId = f, originalQuery = pq, esc_nlpResult = n,
             esc_imageAnalysis = i, esc_aiResponse = a, esc_location = l, esc_crop = c,
             priority = escalationPriority a, createdAt = now clk\<rparr>]
      else escalations st)"
  by (simp add: escalate_def)

text \<open>
  A request that is answered went through the advice generator, the escalation step and
  \<open>recordQuery\<close>, in this order.
\<close>

lemma processQuery_Inr:
  assumes "processQuery st req clk = Inr (resp, st')"
  shows "\<exists>q a f pq n i l c.
           (\<forall>r. a = Inr r \<longrightarrow> shouldEscalate r = (confidence r < 0.6))
           \<and> status resp = fst (escalate f pq n i a l c clk st)
           \<and> st' = recordQuery q a clk (snd (escalate f pq n i a l c clk st))
           \<and> r_confidence resp = (case a of Inr r \<Rightarrow> Some (confidence r) | Inl e \<Rightarrow> None)"
proof -
  define farmerId where "farmerId = orDefault (b_farmerId req) ''anonymous''"
  define crop where "crop = orDefault (b_crop req) []"
  define location where "location = orDefault (b_location req) []"
  define season where "season = orDefault (b_season req) []"
  define language where "language = orDefault (b_language req) ''en''"
  from assms obtain pq v
    where vs: "voiceStep (audio req) (orDefault (b_queryText req) []) = Inr (pq, v)"
    by (cases "voiceStep (audio req) (orDefault (b_queryText req) [])")
       (auto simp: processQuery_def)
  define n where "n = (if pq \<noteq> [] then Some (processNaturalLanguage pq language) else None)"
  define i where "i = map_option (\<lambda>p. analyzeImage p crop) (image req)"
  define q where "q = \<lparr>q_queryText = pq, q_farmerId = farmerId, q_crop = crop,
                       q_location = location, q_season = season, q_language = None\<rparr>"
  define a where "a = generateAdvice (farmers st) (month clk) q
                        \<lparr>nlp = n, a_imageAnalysis = i, a_crop = crop, a_location = location,
                         a_season = season, a_farmerId = farmerId\<rparr>
                        (filter (\<lambda>r. q_farmerId (qr_query r) = farmerId) (queries st))"
  have flag: "\<forall>r. a = Inr r \<longrightarrow> shouldEscalate r = (confidence r < 0.6)"
    unfolding a_def by (blast dest: generateAdvice_flag)
  have "status resp = fst (escalate farmerId pq n i a location crop clk st)
        \<and> st' = recordQuery q a clk (snd (escalate farmerId pq n i a location crop clk st))
        \<and> r_confidence resp = (case a of Inr r \<Rightarrow> Some (confidence r) | Inl e \<Rightarrow> None)"
    using assms vs
    unfolding a_def q_def i_def n_def language_def season_def location_def crop_def farmerId_def
    by (clarsimp simp: processQuery_def Let_def case_prod_beta)
  with flag show ?thesis by blast
qed

lemma processQuery_emptyRequest:
  "\<exists>resp st'. processQuery initialState emptyRequest sampleClock = Inr (resp, st')
     \<and> r_confidence resp = Some 0.3"
  by (simp add: processQuery_def emptyRequest_def voiceStep_def orDefault_def generateAdvice_def
      buildContext_def getCropCalendar_def getProperty_def cropDatabase_def
      objectPrototypeKeys_def adviceBranch_def escalate_def needsEscalation_def Let_def)

text \<open>
  C1. Whenever a query is processed, its status is \<open>escalated\<close> exactly when the advice
  result has a confidence below 0.6, which is exactly when the result's own flag
  \<open>shouldEscalate\<close> is set and exactly when one escalation record, holding that result,
  is appended; in every other case the status is \<open>answered\<close> and the escalation list is
  as before. The advice result is the one stored in the query record that the request
  appends to the log.
\<close>

theorem escalated_iff_low_confidence:
  assumes "processQuery st req clk = Inr (resp, st')"
  shows "\<exists>q. queries st' = queries st @ [q]
     \<and> r_confidence resp = (case qr_response q of Inr r \<Rightarrow> Some (confidence r) | Inl e \<Rightarrow> None)
     \<and> (status resp = ''escalated'') = (\<exists>r. qr_response q = Inr r \<and> confidence r < 0.6)
     \<and> (status resp = ''escalated'') = (\<exists>r. qr_response q = Inr r \<and> shouldEscalate r)
     \<and> (status resp = ''escalated'') =
         (\<exists>e. escalations st' = escalations st @ [e] \<and> esc_aiResponse e = qr_response q)
     \<and> (status resp = ''answered'') = (escalations st' = escalations st)
     \<and> (status resp = ''answered'') = (status resp \<noteq> ''escalated'')"
proof -
  from processQuery_Inr [OF assms] obtain q a f pq n i l c
    where flag: "\<forall>r. a = Inr r \<longrightarrow> shouldEscalate r = (confidence r < 0.6)"
      and s: "status resp = fst (escalate f pq n i a l c clk st)"
      and st': "st' = recordQuery q a clk (snd (escalate f pq n i a l c clk st))"
      and c: "r_confidence resp = (case a of Inr r \<Rightarrow> Some (confidence r) | Inl e \<Rightarrow> None)"
    by blast
  have ne: "needsEscalation a = (\<exists>r. a = Inr r \<and> confidence r < 0.6)"
    using flag by (cases a) (auto simp: needsEscalation_def)
  have nf: "needsEscalation a = (\<exists>r. a = Inr r \<and> shouldEscalate r)"
    using flag by (cases a) (auto simp: needsEscalation_def)
  show ?thesis
  proof (cases "needsEscalation a")
    case True
    with ne nf s st' c show ?thesis
      by (simp add: recordQuery_queries recordQuery_escalations escalate_status
          escalate_escalations escalate_queries)
  next
    case False
    with ne nf s st' c show ?thesis
      by (auto simp add: recordQuery_queries recordQuery_escalations escalate_status
          escalate_escalations escalate_queries)
  qed
qed

text \<open>
  An empty request on the fresh stores: the confidence is 0.3, so the query is escalated
  and the escalation list holds one record.
\<close>

theorem escalated_iff_low_confidence_witness:
  "\<exists>resp st'. processQuery initialState emptyRequest sampleClock = Inr (resp, st')
     \<and> r_confidence resp = Some 0.3
     \<and> status resp = ''escalated''
     \<and> (\<exists>e. escalations st' = escalations initialState @ [e])"
proof -
  from processQuery_emptyRequest obtain resp st'
    where p: "processQuery initialState emptyRequest sampleClock = Inr (resp, st')"
      and c: "r_confidence resp = Some 0.3"
    by blast
  from escalated_iff_low_confidence [OF p] obtain q :: queryRecord
    where rc: "r_confidence resp = (case qr_response q of Inr r \<Rightarrow> Some (confidence r) | Inl e \<Rightarrow> None)"
      and es: "(status resp = ''escalated'') = (\<exists>r. qr_response q = Inr r \<and> confidence r < 0.6)"
      and ap: "(status resp = ''escalated'') =
         (\<exists>e. escalations st' = escalations initialState @ [e] \<and> esc_aiResponse e = qr_response q)"
    by blast
  from rc c obtain r where "qr_response q = Inr r" and "confidence r = 0.3"
    by (cases "qr_response q") auto
  with es have "status resp = ''escalated''" by simp
  with ap p c show ?thesis by blast
qed

text \<open>
  C7. When the escalation step escalates, the record it appends has priority \<open>high\<close>
  exactly when the confidence of the advice is below 0.4, and \<open>medium\<close> otherwise.
\<close>

theorem escalation_priority:
  assumes "escalate f pq n i a l c clk st = (''escalated'', st')"
  shows "\<exists>e r. a = Inr r \<and> escalations st' = escalations st @ [e] \<and> esc_aiResponse e = a
           \<and> (priority e = ''high'') = (confidence r < 0.4)
           \<and> (priority e = ''medium'') = (\<not> confidence r < 0.4)"
  using assms
  by (cases a) (auto simp: escalate_def needsEscalation_def escalationPriority_def split: if_splits)

text \<open>A confidence of exactly 0.45 is escalated with priority \<open>medium\<close>.\<close>

theorem escalation_priority_witness:
  "escalate ''f1'' ''leaf spots'' None None (Inr (sampleAdvice 0.45)) [] ''banana'' sampleClock
       initialState
     = (''escalated'',
        snd (escalate ''f1'' ''leaf spots'' None None (Inr (sampleAdvice 0.45)) [] ''banana''
               sampleClock initialState))
   \<and> (\<exists>e. escalations (snd (escalate ''f1'' ''leaf spots'' None None (Inr (sampleAdvice 0.45)) []
                               ''banana'' sampleClock initialState)) = [e]
          \<and> priority e = ''medium'')"
proof -
  have h: "escalate ''f1'' ''leaf spots'' None None (Inr (sampleAdvice 0.45)) [] ''banana''
             sampleClock initialState
           = (''escalated'',
              snd (escalate ''f1'' ''leaf spots'' None None (Inr (sampleAdvice 0.45)) [] ''banana''
                     sampleClock initialState))"
    by (simp add: escalate_def needsEscalation_def sampleAdvice_def)
  from escalation_priority [OF h] obtain e r
    where "Inr (sampleAdvice 0.45) = (Inr r :: aiResponse)"
      and "escalations (snd (escalate ''f1'' ''leaf spots'' None None (Inr (sampleAdvice 0.45)) []
                               ''banana'' sampleClock initialState))
           = escalations initialState @ [e]"
      and "(priority e = ''medium'') = (\<not> confidence r < 0.4)"
    by blast
  then have "escalations (snd (escalate ''f1'' ''leaf spots'' None None (Inr (sampleAdvice 0.45)) []
                               ''banana'' sampleClock initialState)) = [e]
             \<and> priority e = ''medium''"
    by (auto simp: initialState_def sampleAdvice_def)
  with h show ?thesis by blast
qed

section \<open>Requests that fail\<close>

text \<open>
  C2. No request is to end in an error: at worst the answer is the generic advice with
  confidence 0.3 and an escalation, also for a request with an audio file and when the
  advice generator fails inside. Every request with an audio file ends in the handler's
  error response, whatever the stores, the body and the clock. A request whose crop is
  \<open>constructor\<close> makes the advice generator fail: the response has no answer and no
  confidence, its status is \<open>answered\<close> and nothing is escalated.
\<close>

theorem audio_request_fails:
  "processQuery st (req\<lparr>audio := Some p\<rparr>) clk
     = Inl (InternalServerError ''Failed to process your query'')
   \<and> map_sum id (\<lambda>(resp, st'). (answer resp, r_confidence resp, status resp, escalations st'))
        (processQuery initialState (emptyRequest\<lparr>b_crop := Some ''constructor''\<rparr>) sampleClock)
     = Inr (None, None, ''answered'', [])"
proof
  show "processQuery st (req\<lparr>audio := Some p\<rparr>) clk
          = Inl (InternalServerError ''Failed to process your query'')"
    by (simp add: processQuery_def voiceStep_def processVoice_def voiceText_nonempty)
next
  show "map_sum id (\<lambda>(resp, st'). (answer resp, r_confidence resp, status resp, escalations st'))
          (processQuery initialState (emptyRequest\<lparr>b_crop := Some ''constructor''\<rparr>) sampleClock)
        = Inr (None, None, ''answered'', [])"
    by (simp add: processQuery_def emptyRequest_def voiceStep_def orDefault_def generateAdvice_def
        buildContext_def getCropCalendar_def getProperty_def cropDatabase_def
        objectPrototypeKeys_def escalate_def needsEscalation_def recordQuery_def
        initialState_def Let_def)
qed

section \<open>Language distribution\<close>

text \<open>
  C9. Every recorded query is to be counted in the bucket of its language. A query sent
  with language \<open>ml\<close> is answered in that language, but the record written for it has no
  language, and the distribution counts it under \<open>en\<close>.
\<close>

theorem language_distribution_counts_en:
  "map_sum id (\<lambda>(resp, st'). (r_language resp, languageDistribution (getAnalytics st')))
     (processQuery initialState
        (emptyRequest\<lparr>b_queryText := Some ''pest'', b_language := Some ''ml''\<rparr>) sampleClock)
   = Inr (''ml'', [(''en'', 1), (''ml'', 0), (''hi'', 0), (''other'', 0)])"
  by (simp add: processQuery_def emptyRequest_def voiceStep_def orDefault_def case_prod_beta
      recordQuery_def escalate_def initialState_def Let_def getAnalytics_def
      getLanguageDistribution_def bumpLanguage_def)

section \<open>Feedback\<close>

lemma findIndex_None: "(findIndex P xs = None) = (\<forall>x\<in>set xs. \<not> P x)"
  by (induction xs) auto

text \<open>
  C4, as amended. Feedback for a query id that no record of the query log has leaves the
  query log (and the farmer and escalation stores) unchanged, and appends the feedback
  entry to the feedback log.
\<close>

theorem feedback_unknown_query:
  assumes "fb_queryId req \<notin> qr_id ` set (queries st)"
  shows "queries (snd (submitFeedback st req clk)) = queries st
       \<and> feedback (snd (submitFeedback st req clk)) = feedback st @
           [\<lparr>f_queryId = fb_queryId req, rating = fb_rating req, comments = fb_comments req,
             isHelpful = fb_isHelpful req, f_timestamp = now clk\<rparr>]
       \<and> farmers (snd (submitFeedback st req clk)) = farmers st
       \<and> escalations (snd (submitFeedback st req clk)) = escalations st"
proof -
  from assms have "findIndex (\<lambda>q. qr_id q = fb_queryId req) (queries st) = None"
    by (force simp: findIndex_None)
  then show ?thesis by (simp add: submitFeedback_def Let_def)
qed

text \<open>On the fresh stores, feedback for query 7 leaves the query log empty.\<close>

theorem feedback_unknown_query_witness:
  "fb_queryId sampleFeedback \<notin> qr_id ` set (queries initialState)
   \<and> queries (snd (submitFeedback initialState sampleFeedback sampleClock)) = []
   \<and> length (feedback (snd (submitFeedback initialState sampleFeedback sampleClock))) = 1"
proof -
  have h: "fb_queryId sampleFeedback \<notin> qr_id ` set (queries initialState)"
    by (simp add: initialState_def)
  from feedback_unknown_query [OF h, of sampleClock] h show ?thesis
    by (simp add: initialState_def)
qed

text \<open>
  The feedback log does not stay as it was: on the fresh stores, where no query has the
  id, the submission changes it.
\<close>

theorem feedback_unknown_query_changes_log:
  "fb_queryId sampleFeedback \<notin> qr_id ` set (queries initialState)
   \<and> feedback (snd (submitFeedback initialState sampleFeedback sampleClock))
       \<noteq> feedback initialState"
  by (simp add: submitFeedback_def initialState_def Let_def)

section \<open>Farmer crops\<close>

lemma farmerCrops_recordQuery:
  "farmerCrops (recordQuery q a clk st) fid =
     (if fid = q_farmerId q then addCrop (q_crop q) (farmerCrops st fid) else farmerCrops st fid)"
  by (simp add: farmerCrops_def recordQuery_def Let_def update_conv' newProfile_def
      split: option.splits)

lemma farmerCrops_initial: "farmerCrops initialState fid = []"
  by (simp add: farmerCrops_def initialState_def)

lemma addCrop_distinct: "distinct cs \<Longrightarrow> distinct (addCrop c cs)"
  by (simp add: addCrop_def)

lemma addCrop_step: "addCrop c cs = cs \<or> (\<exists>x. x \<notin> set cs \<and> addCrop c cs = cs @ [x])"
  by (simp add: addCrop_def)

lemma recordQuery_distinct:
  "distinct (farmerCrops st fid) \<Longrightarrow> distinct (farmerCrops (recordQuery q a clk st) fid)"
  by (auto simp: farmerCrops_recordQuery addCrop_distinct)

lemma recordQuery_step:
  "farmerCrops (recordQuery q a clk st) fid = farmerCrops st fid
   \<or> (\<exists>c. c \<notin> set (farmerCrops st fid)
          \<and> farmerCrops (recordQuery q a clk st) fid = farmerCrops st fid @ [c])"
  using addCrop_step [of "q_crop q" "farmerCrops st fid"]
  by (auto simp: farmerCrops_recordQuery)

lemma recordQueries_distinct:
  "distinct (farmerCrops st fid) \<Longrightarrow> distinct (farmerCrops (recordQueries st ops) fid)"
  by (induction st ops rule: recordQueries.induct) (simp_all add: recordQuery_distinct)

lemma recordQueries_grows:
  "\<exists>added. farmerCrops (recordQueries st ops) fid = farmerCrops st fid @ added"
proof (induction st ops rule: recordQueries.induct)
  case (1 st)
  show ?case by simp
next
  case (2 st q a clk rest)
  then obtain added
    where "farmerCrops (recordQueries (recordQuery q a clk st) rest) fid =
             farmerCrops (recordQuery q a clk st) fid @ added"
    by blast
  with recordQuery_step [of q a clk st fid] show ?case by auto
qed

text \<open>
  C10. For every farmer id: after any sequence of recorded queries on the fresh stores the
  crops of the profile have no duplicates; from any stores, a sequence of recorded queries
  only adds crops at the end of the list; and one \<open>recordQuery\<close> keeps a duplicate-free
  list duplicate-free and either leaves the crops as they are or appends one crop that
  was not among them.
\<close>

theorem crops_distinct_and_growing:
  "distinct (farmerCrops (recordQueries initialState ops) fid)
   \<and> (\<exists>added. farmerCrops (recordQueries st ops) fid = farmerCrops st fid @ added)
   \<and> (distinct (farmerCrops st fid) \<longrightarrow> distinct (farmerCrops (recordQuery q a clk st) fid))
   \<and> (farmerCrops (recordQuery q a clk st) fid = farmerCrops st fid
      \<or> (\<exists>c. c \<notin> set (farmerCrops st fid)
             \<and> farmerCrops (recordQuery q a clk st) fid = farmerCrops st fid @ [c]))"
  using recordQueries_distinct [of initialState fid ops] recordQueries_grows [of st ops fid]
    recordQuery_step [of q a clk st fid] recordQuery_distinct [of st fid q a clk]
  by (simp add: farmerCrops_initial)

text \<open>
  Two queries of farmer \<open>f1\<close> about rice: the profile has the one crop, and the second
  query leaves the crops as they are.
\<close>

theorem crops_distinct_and_growing_witness:
  "distinct (farmerCrops (recordQuery (sampleQuery ''rice'') (Inl []) sampleClock initialState) ''f1'')
   \<and> distinct (farmerCrops
        (recordQuery (sampleQuery ''rice'') (Inl [])  sampleClock
           (recordQuery (sampleQuery ''rice'') (Inl []) sampleClock initialState)) ''f1'')
   \<and> farmerCrops
        (recordQueries initialState
           [(sampleQuery ''rice'', Inl [], sampleClock), (sampleQuery ''rice'', Inl [], sampleClock)])
        ''f1'' = [''rice'']"
proof -
  have d: "distinct (farmerCrops (recordQuery (sampleQuery ''rice'') (Inl []) sampleClock initialState) ''f1'')"
    using crops_distinct_and_growing
            [of "[(sampleQuery ''rice'', Inl [], sampleClock)]" "''f1''" initialState]
    by simp
  from d crops_distinct_and_growing
         [of "[]" "''f1''"
             "recordQuery (sampleQuery ''rice'') (Inl []) sampleClock initialState"
             "sampleQuery ''rice''" "Inl []" sampleClock]
  have d2: "distinct (farmerCrops
        (recordQuery (sampleQuery ''rice'') (Inl [])  sampleClock
           (recordQuery (sampleQuery ''rice'') (Inl []) sampleClock initialState)) ''f1'')"
    by blast
  have "farmerCrops
        (recordQueries initialState
           [(sampleQuery ''rice'', Inl [], sampleClock), (sampleQuery ''rice'', Inl [], sampleClock)])
        ''f1'' = [''rice'']"
    by (simp add: farmerCrops_recordQuery sampleQuery_def addCrop_def farmerCrops_initial)
  with d d2 show ?thesis by blast
qed

section \<open>Disease advice\<close>

lemma startsWith_append: "startsWith (p @ s) p"
  by (induction p) auto

lemma includes_startsWith: "startsWith s p \<Longrightarrow> str_includes s p"
  by (cases s; cases p) auto

lemma includes_append_left: "str_includes s p \<Longrightarrow> str_includes (a @ s) p"
  by (induction a) auto

lemma includes_mid: "str_includes (a @ p @ b) p"
  by (intro includes_append_left includes_startsWith startsWith_append)

lemma generateDiseaseAdvice_urgent:
  assumes "getProperty cropDatabase (toString (c_crop ctx)) = Own info"
    and "severity img = ''high''"
  shows "\<exists>advice. generateDiseaseAdvice img ctx = Inr advice \<and> str_includes advice urgencyPhrase"
proof -
  define A where "A = ''Detected '' @ disease img @ '' in your '' @ toString (c_crop ctx) @ ''. ''"
  have "\<exists>B. generateDiseaseAdvice img ctx = Inr (A @ urgencyPhrase @ B)"
    using assms unfolding generateDiseaseAdvice_def A_def Let_def
    by (cases "c_season ctx = []") (simp_all del: append_Cons)
  then show ?thesis using includes_mid by auto
qed

lemma generateDiseaseAdvice_generic:
  assumes "getProperty cropDatabase (toString (c_crop ctx)) = Missing"
  shows "generateDiseaseAdvice img ctx =
     Inr (''Detected '' @ disease img @
          ''. General recommendation: Consult with local agricultural officer for crop-specific treatment.'')"
  using assms by (simp add: generateDiseaseAdvice_def)

lemma getProperty_empty: "getProperty cropDatabase [] = Missing"
  by (simp add: getProperty_def cropDatabase_def objectPrototypeKeys_def)

text \<open>
  When the crop that the context resolves to is not a member name of \<open>Object.prototype\<close>,
  the context is built, with that crop.
\<close>

lemma buildContext_ok:
  assumes "getProperty cropDatabase (toString (js_or (Str (a_crop inp)) (nlpCrop (nlp inp))))
             \<noteq> Inherited"
  shows "\<exists>ctx. buildContext fs m inp h = Inr ctx
           \<and> c_crop ctx = js_or (Str (a_crop inp)) (nlpCrop (nlp inp))"
proof (cases "a_crop inp = []")
  case True
  then show ?thesis
    by (simp add: buildContext_def getCropCalendar_def getProperty_empty)
next
  case False
  with assms show ?thesis
    by (cases "getProperty cropDatabase (a_crop inp)")
       (simp_all add: buildContext_def getCropCalendar_def js_or_def)
qed

lemma analyzeImage_leafSpot:
  "analyzeImage ''uploads/leaf_spot.jpg'' crop =
     \<lparr>disease = ''Leaf Spot'', i_confidence = 0.82,
      symptoms = [''Visible spot patterns'', ''Affected leaf areas''], severity = ''high''\<rparr>"
  by (simp add: analyzeImage_def basename_def toLowerCase_def lowerChar_def diseasePatterns_def)

lemma map_of_banana: "\<exists>info. map_of cropDatabase ''banana'' = Some info"
  by (simp add: cropDatabase_def)

lemma map_of_coconut: "map_of cropDatabase ''coconut'' = None"
  by (simp add: cropDatabase_def)

lemma getProperty_coconut: "getProperty cropDatabase ''coconut'' = Missing"
  by (simp add: getProperty_def map_of_coconut objectPrototypeKeys_def)

lemma getProperty_Own: "map_of obj key = Some v \<Longrightarrow> getProperty obj key = Own v"
  by (simp add: getProperty_def)

lemma getProperty_Missing:
  "map_of obj key = None \<Longrightarrow> key \<notin> set objectPrototypeKeys \<Longrightarrow> getProperty obj key = Missing"
  by (simp add: getProperty_def)

text \<open>
  C6, as amended. For a query with an image analysis whose disease is not
  \<open>Unknown condition\<close> and whose severity is \<open>high\<close>: when the crop of the context is an
  entry of the knowledge base, the main advice contains the urgency phrase; when the crop
  is absent from the knowledge base and its name is not a member name of
  \<open>Object.prototype\<close>, the main advice is the generic message that names the disease and
  recommends the local agricultural officer, with no urgency phrase added. The crop of
  the context is the crop of the request or, when that is empty, the crop entity of the
  text.
\<close>

theorem urgency_for_known_crop:
  assumes "a_imageAnalysis inp = Some img"
    and "disease img \<noteq> ''Unknown condition''"
    and "severity img = ''high''"
  shows "(\<forall>info. map_of cropDatabase (toString (js_or (Str (a_crop inp)) (nlpCrop (nlp inp))))
                  = Some info
            \<longrightarrow> (\<exists>r. generateAdvice fs m q inp h = Inr r
                    \<and> str_includes (mainAdvice r) urgencyPhrase))
       \<and> (map_of cropDatabase (toString (js_or (Str (a_crop inp)) (nlpCrop (nlp inp)))) = None
          \<and> toString (js_or (Str (a_crop inp)) (nlpCrop (nlp inp))) \<notin> set objectPrototypeKeys
            \<longrightarrow> (\<exists>r. generateAdvice fs m q inp h = Inr r \<and> mainAdvice r =
                  ''Detected '' @ disease img @
                  ''. General recommendation: Consult with local agricultural officer for crop-specific treatment.''))"
proof (intro conjI allI impI)
  fix info
  assume "map_of cropDatabase (toString (js_or (Str (a_crop inp)) (nlpCrop (nlp inp))))
            = Some info"
  then have own: "getProperty cropDatabase (toString (js_or (Str (a_crop inp)) (nlpCrop (nlp inp))))
                    = Own info"
    by (rule getProperty_Own)
  then obtain ctx where ctx: "buildContext fs m inp h = Inr ctx"
    and crop: "c_crop ctx = js_or (Str (a_crop inp)) (nlpCrop (nlp inp))"
    using buildContext_ok [of inp fs m h] by auto
  from own crop assms(3) obtain advice where "generateDiseaseAdvice img ctx = Inr advice"
    and "str_includes advice urgencyPhrase"
    using generateDiseaseAdvice_urgent [of ctx info img] by auto
  with ctx assms(1,2)
  show "\<exists>r. generateAdvice fs m q inp h = Inr r \<and> str_includes (mainAdvice r) urgencyPhrase"
    by (simp add: generateAdvice_def adviceBranch_def)
next
  assume "map_of cropDatabase (toString (js_or (Str (a_crop inp)) (nlpCrop (nlp inp)))) = None
          \<and> toString (js_or (Str (a_crop inp)) (nlpCrop (nlp inp))) \<notin> set objectPrototypeKeys"
  then have miss: "getProperty cropDatabase (toString (js_or (Str (a_crop inp)) (nlpCrop (nlp inp))))
                     = Missing"
    by (simp add: getProperty_Missing)
  then obtain ctx where ctx: "buildContext fs m inp h = Inr ctx"
    and crop: "c_crop ctx = js_or (Str (a_crop inp)) (nlpCrop (nlp inp))"
    using buildContext_ok [of inp fs m h] by auto
  from miss crop have "generateDiseaseAdvice img ctx =
     Inr (''Detected '' @ disease img @
          ''. General recommendation: Consult with local agricultural officer for crop-specific treatment.'')"
    using generateDiseaseAdvice_generic [of ctx img] by simp
  with ctx assms(1,2)
  show "\<exists>r. generateAdvice fs m q inp h = Inr r \<and> mainAdvice r =
          ''Detected '' @ disease img @
          ''. General recommendation: Consult with local agricultural officer for crop-specific treatment.''"
    by (simp add: generateAdvice_def adviceBranch_def)
qed

text \<open>
  A leaf-spot upload of severity \<open>high\<close>: sent for banana, an entry of the knowledge base,
  the advice contains the urgency phrase; sent for coconut, which the knowledge base
  lacks and \<open>Object.prototype\<close> does not name, the advice is the generic message.
\<close>

theorem urgency_for_known_crop_witness:
  "a_imageAnalysis (leafSpotUpload ''banana'') = Some (analyzeImage ''uploads/leaf_spot.jpg'' ''banana'')
   \<and> disease (analyzeImage ''uploads/leaf_spot.jpg'' ''banana'') \<noteq> ''Unknown condition''
   \<and> severity (analyzeImage ''uploads/leaf_spot.jpg'' ''banana'') = ''high''
   \<and> (\<exists>info. map_of cropDatabase ''banana'' = Some info)
   \<and> (\<exists>r. generateAdvice [] 11 (sampleQuery ''banana'') (leafSpotUpload ''banana'') [] = Inr r
        \<and> str_includes (mainAdvice r) urgencyPhrase)
   \<and> map_of cropDatabase ''coconut'' = None
   \<and> ''coconut'' \<notin> set objectPrototypeKeys
   \<and> (\<exists>r. generateAdvice [] 11 (sampleQuery ''coconut'') (leafSpotUpload ''coconut'') [] = Inr r
        \<and> mainAdvice r =
          ''Detected Leaf Spot. General recommendation: Consult with local agricultural officer for crop-specific treatment.'')"
proof -
  have img: "a_imageAnalysis (leafSpotUpload crop) = Some (analyzeImage ''uploads/leaf_spot.jpg'' crop)"
    for crop by (simp add: leafSpotUpload_def)
  have d: "disease (analyzeImage ''uploads/leaf_spot.jpg'' crop) \<noteq> ''Unknown condition''"
    for crop by (simp add: analyzeImage_leafSpot)
  have s: "severity (analyzeImage ''uploads/leaf_spot.jpg'' crop) = ''high''"
    for crop by (simp add: analyzeImage_leafSpot)
  have key: "toString (js_or (Str (a_crop (leafSpotUpload crop))) (nlpCrop (nlp (leafSpotUpload crop))))
               = crop"
    if "crop \<noteq> []" for crop
    using that by (simp add: leafSpotUpload_def js_or_def)
  from map_of_banana obtain info where bi: "map_of cropDatabase ''banana'' = Some info"
    by blast
  with urgency_for_known_crop [OF img d s, of "''banana''" "[]" 11 "sampleQuery ''banana''" "[]"]
  have b: "\<exists>r. generateAdvice [] 11 (sampleQuery ''banana'') (leafSpotUpload ''banana'') [] = Inr r
              \<and> str_includes (mainAdvice r) urgencyPhrase"
    by (simp add: key)
  have cn: "''coconut'' \<notin> set objectPrototypeKeys"
    by (simp add: objectPrototypeKeys_def)
  with map_of_coconut
    urgency_for_known_crop [OF img d s, of "''coconut''" "[]" 11 "sampleQuery ''coconut''" "[]"]
  have c: "\<exists>r. generateAdvice [] 11 (sampleQuery ''coconut'') (leafSpotUpload ''coconut'') [] = Inr r
              \<and> mainAdvice r =
                ''Detected Leaf Spot. General recommendation: Consult with local agricultural officer for crop-specific treatment.''"
    by (simp add: key analyzeImage_leafSpot)
  from img d s bi b map_of_coconut cn c show ?thesis by blast
qed

text \<open>
  For a crop that the knowledge base lacks, the advice for a disease of severity \<open>high\<close>
  has no urgency phrase.
\<close>

theorem no_urgency_for_unknown_crop:
  "map_option disease (a_imageAnalysis (leafSpotUpload ''coconut'')) = Some ''Leaf Spot''
   \<and> map_option severity (a_imageAnalysis (leafSpotUpload ''coconut'')) = Some ''high''
   \<and> map_sum id mainAdvice
        (generateAdvice [] 11 (sampleQuery ''coconut'') (leafSpotUpload ''coconut'') [])
      = Inr ''Detected Leaf Spot. General recommendation: Consult with local agricultural officer for crop-specific treatment.''
   \<and> \<not> str_includes
          ''Detected Leaf Spot. General recommendation: Consult with local agricultural officer for crop-specific treatment.''
          urgencyPhrase"
proof (intro conjI)
  show "map_option disease (a_imageAnalysis (leafSpotUpload ''coconut'')) = Some ''Leaf Spot''"
    by (simp add: leafSpotUpload_def analyzeImage_leafSpot)
  show "map_option severity (a_imageAnalysis (leafSpotUpload ''coconut'')) = Some ''high''"
    by (simp add: leafSpotUpload_def analyzeImage_leafSpot)
  show "map_sum id mainAdvice
          (generateAdvice [] 11 (sampleQuery ''coconut'') (leafSpotUpload ''coconut'') [])
        = Inr ''Detected Leaf Spot. General recommendation: Consult with local agricultural officer for crop-specific treatment.''"
    by (simp add: generateAdvice_def buildContext_def getCropCalendar_def getProperty_coconut
        leafSpotUpload_def analyzeImage_leafSpot adviceBranch_def generateDiseaseAdvice_def
        js_or_def)
  show "\<not> str_includes
          ''Detected Leaf Spot. General recommendation: Consult with local agricultural officer for crop-specific treatment.''
          urgencyPhrase"
    by (simp add: urgencyPhrase_def)
qed

text \<open>
  The crop names left out above, the member names of \<open>Object.prototype\<close>: with one of
  them as the crop of the context the advice generator throws inside and answers its error
  object, which has no main advice.
\<close>

lemma generateAdvice_prototype_crop:
  assumes "a_imageAnalysis inp = Some img"
    and "disease img \<noteq> ''Unknown condition''"
    and "getProperty cropDatabase (toString (js_or (Str (a_crop inp)) (nlpCrop (nlp inp))))
           = Inherited"
  shows "generateAdvice fs m q inp h = Inl ''Could not generate advice''"
proof (cases "a_crop inp = []")
  case True
  with assms show ?thesis
    by (simp add: generateAdvice_def buildContext_def getCropCalendar_def getProperty_empty
        adviceBranch_def generateDiseaseAdvice_def js_or_def)
next
  case False
  with assms show ?thesis
    by (simp add: generateAdvice_def buildContext_def getCropCalendar_def js_or_def)
qed

end
